theory Spec2Isabelle
  imports Main
begin

section \<open>JavaScript values, errors and the runtime\<close>

text \<open>
  The handlers of the service-centre backend are JavaScript functions over request
  objects, JSON bodies and \<^verbatim>\<open>Date\<close> objects.  Values that travel through a request
  or a response are modelled by \<open>jsval\<close>; numbers are integers (every number the
  slot code computes with is an hour, a minute or a count).  Strings are lists of
  8-bit characters, read as the code units U+0000 to U+00FF.
\<close>

datatype jsval =
    JUndefined
  | JNull
  | JBool bool
  | JNum int
  | JStr string
  | JArr "jsval list"
  | JObj "(string \<times> jsval) list"

text \<open>A thrown \<^verbatim>\<open>Error\<close>, with its \<^verbatim>\<open>message\<close>.\<close>

datatype exn = Error string

fun error_message :: "exn \<Rightarrow> string" where
  "error_message (Error m) = m"

text \<open>
  A \<^verbatim>\<open>Date\<close> object is its time value: milliseconds since the epoch in UTC, or
  \<open>None\<close> for NaN (an \<^verbatim>\<open>Invalid Date\<close>).
\<close>

type_synonym jsdate = "int option"

text \<open>
  What the code takes from its JavaScript runtime and cannot compute itself:
  the \<^verbatim>\<open>Date\<close> constructor applied to a value (date-string parsing is
  implementation-defined outside the ISO format), the local time zone adjustment
  \<^verbatim>\<open>LocalTZA(t, isUTC)\<close> of ECMAScript, \<^verbatim>\<open>JSON.parse\<close> (\<open>None\<close> when it throws
  a SyntaxError) and the clock, as \<^verbatim>\<open>new Date().toISOString()\<close>.
\<close>

record runtime =
  Date_of :: "jsval \<Rightarrow> jsdate"
  LocalTZA :: "int \<Rightarrow> bool \<Rightarrow> int"
  JSON_parse :: "string \<Rightarrow> jsval option"
  now_toISOString :: string

definition msPerMinute :: int where "msPerMinute = 60000"
definition msPerHour :: int where "msPerHour = 3600000"
definition msPerDay :: int where "msPerDay = 86400000"

definition LocalTime :: "runtime \<Rightarrow> int \<Rightarrow> int" where
  "LocalTime rt t = t + LocalTZA rt t True"

definition UTC :: "runtime \<Rightarrow> int \<Rightarrow> int" where
  "UTC rt t = t - LocalTZA rt t False"

text \<open>\<^verbatim>\<open>getDay\<close>, \<^verbatim>\<open>getHours\<close>, \<^verbatim>\<open>getMinutes\<close>: NaN on an invalid date.\<close>

definition getDay :: "runtime \<Rightarrow> jsdate \<Rightarrow> int option" where
  "getDay rt d = map_option (\<lambda>t. (LocalTime rt t div msPerDay + 4) mod 7) d"

definition getHours :: "runtime \<Rightarrow> jsdate \<Rightarrow> int option" where
  "getHours rt d = map_option (\<lambda>t. (LocalTime rt t div msPerHour) mod 24) d"

definition getMinutes :: "runtime \<Rightarrow> jsdate \<Rightarrow> int option" where
  "getMinutes rt d = map_option (\<lambda>t. (LocalTime rt t div msPerMinute) mod 60) d"

text \<open>
  \<^verbatim>\<open>TimeClip\<close>: a time value more than 8.64e15 ms away from the epoch is not
  representable and becomes NaN.
\<close>

definition TimeClip :: "int \<Rightarrow> jsdate" where
  "TimeClip t = (if \<bar>t\<bar> > 8640000000000000 then None else Some t)"

text \<open>
  \<^verbatim>\<open>d.setHours(h, m, s, ms)\<close>: the same local day, at the given local time, clipped;
  an invalid date stays invalid.
\<close>

definition setHours :: "runtime \<Rightarrow> jsdate \<Rightarrow> int \<Rightarrow> int \<Rightarrow> int \<Rightarrow> int \<Rightarrow> jsdate" where
  "setHours rt d h m s ms =
     (case d of
        None \<Rightarrow> None
      | Some t \<Rightarrow>
          TimeClip (UTC rt ((LocalTime rt t div msPerDay) * msPerDay
                            + (h * msPerHour + m * msPerMinute + s * 1000 + ms))))"

text \<open>JavaScript truthiness, as \<^verbatim>\<open>!x\<close> and \<^verbatim>\<open>a && b\<close> test it.\<close>

fun truthy :: "jsval \<Rightarrow> bool" where
  "truthy JUndefined = False"
| "truthy JNull = False"
| "truthy (JBool b) = b"
| "truthy (JNum n) = (n \<noteq> 0)"
| "truthy (JStr s) = (s \<noteq> [])"
| "truthy (JArr _) = True"
| "truthy (JObj _) = True"

text \<open>Property access \<^verbatim>\<open>o.k\<close>: \<^verbatim>\<open>undefined\<close> when the property is absent.\<close>

fun getProp :: "jsval \<Rightarrow> string \<Rightarrow> jsval" where
  "getProp (JObj kvs) k = (case map_of kvs k of Some v \<Rightarrow> v | None \<Rightarrow> JUndefined)"
| "getProp _ k = JUndefined"

subsection \<open>Numbers to strings\<close>

fun digits :: "nat \<Rightarrow> string" where
  "digits n = (if n < 10 then [''0123456789'' ! n]
               else digits (n div 10) @ [''0123456789'' ! (n mod 10)])"

declare digits.simps [simp del]

text \<open>\<^verbatim>\<open>n.toString()\<close> on an integer, and \<^verbatim>\<open>s.padStart(n, c)\<close>.\<close>

definition toString :: "int \<Rightarrow> string" where
  "toString i = (if i < 0 then CHR ''-'' # digits (nat (- i)) else digits (nat i))"

definition padStart :: "nat \<Rightarrow> char \<Rightarrow> string \<Rightarrow> string" where
  "padStart n c s = replicate (n - length s) c @ s"

section \<open>The booking store\<close>

text \<open>
  The table behind \<^verbatim>\<open>prisma.appointment\<close>: of each row, the two columns the slot
  code reads.  A stored \<^verbatim>\<open>scheduledDate\<close> is a valid instant.
\<close>

record appointment =
  scheduledDate :: int
  status :: string

datatype status_filter = StatusIn "string list" | StatusNot string

record where_clause =
  gte :: jsdate
  lte :: jsdate
  statusFilter :: status_filter

fun status_matches :: "status_filter \<Rightarrow> string \<Rightarrow> bool" where
  "status_matches (StatusIn ss) s = List.member ss s"
| "status_matches (StatusNot x) s = (s \<noteq> x)"

text \<open>
  A database client answers a \<^verbatim>\<open>findMany\<close> with the selected rows (the query
  selects \<^verbatim>\<open>scheduledDate\<close> only, so a selected row is that instant) or throws.
\<close>

type_synonym prisma = "where_clause \<Rightarrow> exn + int list"

text \<open>
  The client over a table.  Prisma refuses an invalid \<^verbatim>\<open>Date\<close> argument with a
  validation error; otherwise the rows within the inclusive bounds whose status passes
  the filter are selected, in table order.
\<close>

definition findMany :: "appointment list \<Rightarrow> prisma" where
  "findMany db w =
     (case gte w of
        None \<Rightarrow> Inl (Error ''Invalid value for argument gte: Provided Date object is invalid'')
      | Some lo \<Rightarrow>
          (case lte w of
             None \<Rightarrow> Inl (Error ''Invalid value for argument lte: Provided Date object is invalid'')
           | Some hi \<Rightarrow>
               Inr (map scheduledDate
                      (filter (\<lambda>a. lo \<le> scheduledDate a \<and> scheduledDate a \<le> hi
                                   \<and> status_matches (statusFilter w) (status a)) db))))"

text \<open>The effects a handler performs, in order: store queries and model invocations.\<close>

datatype prompt =
    ExtractionPrompt string string
  | SundayPrompt jsval jsval
  | TimeSlotPrompt jsval jsval jsval string string
  | GeneralPrompt string jsval

datatype call = FindMany where_clause | Invoke prompt

section \<open>The available-slots handler of the appointment controller\<close>

record slot =
  hour :: int
  time :: string
  display :: string

definition formatHourDisplay :: "int \<Rightarrow> string" where
  "formatHourDisplay h =
     (let period = (if h \<ge> 12 then ''PM'' else ''AM'');
          displayHour = (if h > 12 then h - 12 else if h = 0 then 12 else h)
      in toString displayHour @ '':00 '' @ period)"

text \<open>\<^verbatim>\<open>days[dayOfWeek]\<close>: \<^verbatim>\<open>undefined\<close> off the array, and for NaN.\<close>

definition getDayName :: "int option \<Rightarrow> jsval" where
  "getDayName dayOfWeek =
     (let days = [''Sunday'', ''Monday'', ''Tuesday'', ''Wednesday'', ''Thursday'',
                  ''Friday'', ''Saturday'']
      in case dayOfWeek of
           None \<Rightarrow> JUndefined
         | Some i \<Rightarrow> if 0 \<le> i \<and> i < int (length days) then JStr (days ! nat i)
                     else JUndefined)"

text \<open>
  The loop \<^verbatim>\<open>for (let hour = startHour; hour < endHour; hour++) allSlots.push(...)\<close>.
\<close>

function allSlotsFrom :: "int \<Rightarrow> int \<Rightarrow> slot list" where
  "allSlotsFrom h endHour =
     (if h < endHour
      then \<lparr>hour = h,
            time = padStart 2 (CHR ''0'') (toString h) @ '':00'',
            display = formatHourDisplay h\<rparr> # allSlotsFrom (h + 1) endHour
      else [])"
  by pat_completeness auto
termination
  by (relation "measure (\<lambda>(h, endHour). nat (endHour - h))") auto

declare allSlotsFrom.simps [simp del]

definition slotJson :: "slot \<Rightarrow> jsval" where
  "slotJson s = JObj [(''hour'', JNum (hour s)), (''time'', JStr (time s)),
                      (''display'', JStr (display s))]"

record response =
  statusCode :: nat
  json :: jsval

record slots_request =
  query_date :: "string option"

definition dateRequired :: response where
  "dateRequired = \<lparr>statusCode = 400,
     json = JObj [(''success'', JBool False), (''error'', JStr ''Date is required'')]\<rparr>"

definition closedOnSundays :: response where
  "closedOnSundays = \<lparr>statusCode = 200,
     json = JObj [(''success'', JBool True),
                  (''data'', JObj [(''availableSlots'', JArr []),
                                   (''message'', JStr ''Service station is closed on Sundays'')])]\<rparr>"

definition failedToFetch :: response where
  "failedToFetch = \<lparr>statusCode = 500,
     json = JObj [(''success'', JBool False),
                  (''error'', JStr ''Failed to fetch available time slots'')]\<rparr>"

text \<open>
  \<^verbatim>\<open>getAvailableTimeSlots(req, res)\<close> of the appointment controller: the response
  sent, and the calls made on the way.  A throw inside the \<^verbatim>\<open>try\<close> is answered by
  the \<^verbatim>\<open>catch\<close> with status 500.
\<close>

definition getAvailableTimeSlots :: "runtime \<Rightarrow> prisma \<Rightarrow> slots_request \<Rightarrow> response \<times> call list" where
  "getAvailableTimeSlots rt prisma req =
     (case query_date req of
        None \<Rightarrow> (dateRequired, [])
      | Some date \<Rightarrow>
          if date = [] then (dateRequired, [])
          else
            let selectedDate = Date_of rt (JStr date);
                dayOfWeek = getDay rt selectedDate
            in if dayOfWeek = Some 0 then (closedOnSundays, [])
               else
                 let startHour = (if dayOfWeek = Some 6 then 8 else 9);
                     endHour = (if dayOfWeek = Some 6 then 19 else 18);
                     allSlots = allSlotsFrom startHour endHour;
                     startOfDay = setHours rt selectedDate 0 0 0 0;
                     endOfDay = setHours rt selectedDate 23 59 59 999;
                     q = \<lparr>gte = startOfDay, lte = endOfDay,
                          statusFilter = StatusIn [''scheduled'', ''confirmed'', ''in_progress'']\<rparr>
                 in case prisma q of
                      Inl error \<Rightarrow> (failedToFetch, [FindMany q])
                    | Inr existingAppointments \<Rightarrow>
                        let bookedHours = map (\<lambda>apt. getHours rt (Some apt)) existingAppointments;
                            availableSlots =
                              filter (\<lambda>slot. \<not> List.member bookedHours (Some (hour slot))) allSlots
                        in (\<lparr>statusCode = 200,
                             json = JObj [(''success'', JBool True),
                               (''data'', JObj [
                                  (''date'', JStr date),
                                  (''dayOfWeek'', getDayName dayOfWeek),
                                  (''businessHours'',
                                     JStr (formatHourDisplay startHour @ '' - ''
                                           @ formatHourDisplay endHour)),
                                  (''availableSlots'', JArr (map slotJson availableSlots)),
                                  (''totalSlots'', JNum (int (length allSlots))),
                                  (''bookedSlots'', JNum (int (length bookedHours)))])]\<rparr>,
                            [FindMany q]))"

definition dataField :: "response \<Rightarrow> string \<Rightarrow> jsval" where
  "dataField r k = getProp (getProp (json r) ''data'') k"

section \<open>The chatbot service\<close>

text \<open>
  \<^verbatim>\<open>src/services/chatbotService.js\<close> is present in two revisions.  Both export
  \<^verbatim>\<open>getAvailableTimeSlots(date)\<close> and \<^verbatim>\<open>processChatMessage\<close>; they differ in how
  the slots are computed.  The language model behind LangChain is a function from the
  filled prompt to the text of its answer, or a thrown error.
\<close>

type_synonym model = "prompt \<Rightarrow> exn + string"

text \<open>
  \<^verbatim>\<open>String.prototype.trim\<close>: the WhiteSpace and LineTerminator code units below
  U+0100 are TAB, LF, VT, FF, CR, SP and NBSP.
\<close>

definition isWhiteSpace :: "char \<Rightarrow> bool" where
  "isWhiteSpace c = List.member [9, 10, 11, 12, 13, 32, 160 :: nat] (of_char c)"

definition trim :: "string \<Rightarrow> string" where
  "trim s = rev (dropWhile isWhiteSpace (rev (dropWhile isWhiteSpace s)))"

text \<open>
  \<^verbatim>\<open>content.match(/\{[\s\S]*\}/)\<close>: the match starts at the first opening brace
  that has a closing brace after it, which is the first opening brace of the text, and
  the greedy star takes it to the last closing brace.
\<close>

definition matchBraces :: "string \<Rightarrow> string option" where
  "matchBraces content =
     (case dropWhile (\<lambda>c. c \<noteq> CHR ''{'') content of
        [] \<Rightarrow> None
      | open # rest \<Rightarrow>
          if List.member rest (CHR ''}'')
          then Some (open # rev (dropWhile (\<lambda>c. c \<noteq> CHR ''}'') (rev rest)))
          else None)"

definition fallbackIntent :: jsval where
  "fallbackIntent = JObj [(''intent'', JStr ''other''), (''date'', JNull),
                          (''userFriendlyDate'', JNull)]"

text \<open>
  \<^verbatim>\<open>extractDateAndIntent(userMessage)\<close>.  The model is invoked outside the
  \<^verbatim>\<open>try\<close>, so its error propagates; inside, a failed match and a failed
  \<^verbatim>\<open>JSON.parse\<close> both yield the fallback object.  What \<^verbatim>\<open>JSON.parse\<close> returns
  is returned as it is.
\<close>

definition extractDateAndIntent :: "runtime \<Rightarrow> model \<Rightarrow> string \<Rightarrow> (exn + jsval) \<times> call list" where
  "extractDateAndIntent rt model userMessage =
     (let currentDate = takeWhile (\<lambda>c. c \<noteq> CHR ''T'') (now_toISOString rt);
          p = ExtractionPrompt userMessage currentDate
      in case model p of
           Inl error \<Rightarrow> (Inl error, [Invoke p])
         | Inr response_content \<Rightarrow>
             let content = trim response_content
             in case matchBraces content of
                  None \<Rightarrow> (Inr fallbackIntent, [Invoke p])
                | Some jsonMatch \<Rightarrow>
                    (case JSON_parse rt jsonMatch of
                       None \<Rightarrow> (Inr fallbackIntent, [Invoke p])
                     | Some parsed \<Rightarrow> (Inr parsed, [Invoke p])))"

text \<open>
  \<^verbatim>\<open>getAvailableTimeSlots(date)\<close>, first revision: the controller's business hours,
  the display labels of the open slots returned.  The \<^verbatim>\<open>catch\<close> rethrows.
\<close>

definition chatbotService_getAvailableTimeSlots :: "runtime \<Rightarrow> prisma \<Rightarrow> jsval \<Rightarrow> (exn + string list) \<times> call list" where
  "chatbotService_getAvailableTimeSlots rt prisma date =
     (let selectedDate = Date_of rt date;
          dayOfWeek = getDay rt selectedDate
      in if dayOfWeek = Some 0 then (Inr [], [])
         else
           let startHour = (if dayOfWeek = Some 6 then 8 else 9);
               endHour = (if dayOfWeek = Some 6 then 19 else 18);
               allSlots = allSlotsFrom startHour endHour;
               startOfDay = setHours rt selectedDate 0 0 0 0;
               endOfDay = setHours rt selectedDate 23 59 59 999;
               q = \<lparr>gte = startOfDay, lte = endOfDay,
                    statusFilter = StatusIn [''scheduled'', ''confirmed'', ''in_progress'']\<rparr>
           in case prisma q of
                Inl error \<Rightarrow> (Inl error, [FindMany q])
              | Inr existingAppointments \<Rightarrow>
                  let bookedHours = map (\<lambda>apt. getHours rt (Some apt)) existingAppointments;
                      availableSlots =
                        map display
                          (filter (\<lambda>slot. \<not> List.member bookedHours (Some (hour slot))) allSlots)
                  in (Inr availableSlots, [FindMany q]))"

text \<open>A number in a template or under \<^verbatim>\<open>toString\<close>: NaN prints as \<^verbatim>\<open>NaN\<close>.\<close>

definition numberToString :: "int option \<Rightarrow> string" where
  "numberToString n = (case n of None \<Rightarrow> ''NaN'' | Some i \<Rightarrow> toString i)"

text \<open>
  \<^verbatim>\<open>getAvailableTimeSlots(date)\<close>, second revision: nine fixed slots on every day,
  every booking that is not cancelled considered, and the booking's \<^verbatim>\<open>HH:MM\<close>
  compared with the slot's.
\<close>

definition chatbotService2_getAvailableTimeSlots :: "runtime \<Rightarrow> prisma \<Rightarrow> jsval \<Rightarrow> (exn + string list) \<times> call list" where
  "chatbotService2_getAvailableTimeSlots rt prisma date =
     (let startOfDay = setHours rt (Date_of rt date) 0 0 0 0;
          endOfDay = setHours rt (Date_of rt date) 23 59 59 999;
          q = \<lparr>gte = startOfDay, lte = endOfDay, statusFilter = StatusNot ''cancelled''\<rparr>
      in case prisma q of
           Inl error \<Rightarrow> (Inl error, [FindMany q])
         | Inr existingAppointments \<Rightarrow>
             let businessHours = [''09:00'', ''10:00'', ''11:00'', ''12:00'', ''13:00'',
                                  ''14:00'', ''15:00'', ''16:00'', ''17:00''];
                 bookedSlots =
                   map (\<lambda>apt. padStart 2 (CHR ''0'') (numberToString (getHours rt (Some apt)))
                              @ '':''
                              @ padStart 2 (CHR ''0'') (numberToString (getMinutes rt (Some apt))))
                       existingAppointments;
                 availableSlots = filter (\<lambda>slot. \<not> List.member bookedSlots slot) businessHours
             in (Inr availableSlots, [FindMany q]))"

text \<open>\<^verbatim>\<open>a || b\<close> and \<^verbatim>\<open>xs.join(sep)\<close>.\<close>

definition orElse :: "jsval \<Rightarrow> jsval \<Rightarrow> jsval" where
  "orElse a b = (if truthy a then a else b)"

fun join :: "string \<Rightarrow> string list \<Rightarrow> string" where
  "join sep [] = []"
| "join sep [x] = x"
| "join sep (x # y # ys) = x @ sep @ join sep (y # ys)"

text \<open>
  \<^verbatim>\<open>generateTimeSlotResponse(timeSlots, date, userFriendlyDate)\<close> of the first
  revision, and \<^verbatim>\<open>generateGeneralResponse(userMessage, intent)\<close>: each fills a
  prompt, invokes the model and returns the text of its answer.
\<close>

definition generateTimeSlotResponse :: "runtime \<Rightarrow> model \<Rightarrow> string list \<Rightarrow> jsval \<Rightarrow> jsval \<Rightarrow> (exn + string) \<times> call list" where
  "generateTimeSlotResponse rt model timeSlots date userFriendlyDate =
     (let selectedDate = Date_of rt date;
          dayOfWeek = getDay rt selectedDate;
          dayName = getDayName dayOfWeek
      in if dayOfWeek = Some 0
         then let p = SundayPrompt (orElse userFriendlyDate date) dayName
              in (model p, [Invoke p])
         else
           let businessHours = (if dayOfWeek = Some 6 then ''8:00 AM - 7:00 PM''
                                else ''9:00 AM - 6:00 PM'');
               slotsText = (if length timeSlots > 0 then join '', '' timeSlots
                            else ''Unfortunately, all slots are fully booked'');
               p = TimeSlotPrompt date (orElse userFriendlyDate date) dayName businessHours
                     slotsText
           in (model p, [Invoke p]))"

definition generateGeneralResponse :: "model \<Rightarrow> string \<Rightarrow> jsval \<Rightarrow> (exn + string) \<times> call list" where
  "generateGeneralResponse model userMessage intent =
     (let p = GeneralPrompt userMessage intent in (model p, [Invoke p]))"

text \<open>
  \<^verbatim>\<open>processChatMessage(userMessage)\<close>, first revision.  \<^verbatim>\<open>JSON.parse\<close> was applied
  to text that starts with an opening brace, so what the extraction returns is an object
  and the destructuring reads its three properties.  Every error is rethrown.
\<close>

definition processChatMessage :: "runtime \<Rightarrow> prisma \<Rightarrow> model \<Rightarrow> string \<Rightarrow> (exn + jsval) \<times> call list" where
  "processChatMessage rt prisma model userMessage =
     (case extractDateAndIntent rt model userMessage of
        (Inl error, c1) \<Rightarrow> (Inl error, c1)
      | (Inr extracted, c1) \<Rightarrow>
          let intent = getProp extracted ''intent'';
              date = getProp extracted ''date'';
              userFriendlyDate = getProp extracted ''userFriendlyDate''
          in if intent = JStr ''appointment_query'' \<and> truthy date
             then (case chatbotService_getAvailableTimeSlots rt prisma date of
                     (Inl error, c2) \<Rightarrow> (Inl error, c1 @ c2)
                   | (Inr availableSlots, c2) \<Rightarrow>
                       (case generateTimeSlotResponse rt model availableSlots date
                               userFriendlyDate of
                          (Inl error, c3) \<Rightarrow> (Inl error, c1 @ c2 @ c3)
                        | (Inr reply, c3) \<Rightarrow>
                            (Inr (JObj [(''reply'', JStr reply), (''intent'', intent),
                                        (''availableSlots'', JArr (map JStr availableSlots)),
                                        (''date'', date)]),
                             c1 @ c2 @ c3)))
             else (case generateGeneralResponse model userMessage intent of
                     (Inl error, c2) \<Rightarrow> (Inl error, c1 @ c2)
                   | (Inr reply, c2) \<Rightarrow>
                       (Inr (JObj [(''reply'', JStr reply), (''intent'', intent),
                                   (''availableSlots'', JNull), (''date'', JNull)]),
                        c1 @ c2)))"

section \<open>The chatbot controller\<close>

record chat_request =
  body_message :: jsval

text \<open>\<^verbatim>\<open>s.includes(sub)\<close> on strings.\<close>

fun str_includes :: "string \<Rightarrow> string \<Rightarrow> bool" where
  "str_includes [] sub = (sub = [])"
| "str_includes (c # cs) sub = (take (length sub) (c # cs) = sub \<or> str_includes cs sub)"

definition messageRequired :: response where
  "messageRequired = \<lparr>statusCode = 400,
     json = JObj [(''success'', JBool False), (''error'', JStr ''Message is required'')]\<rparr>"

text \<open>The \<^verbatim>\<open>catch\<close> of the controller: status 500, the text chosen by the message.\<close>

definition chatbotError :: "exn \<Rightarrow> response" where
  "chatbotError error =
     (let errorMessage =
            (if error_message error \<noteq> [] \<and> str_includes (error_message error) ''API key expired''
             then ''The AI service API key has expired. Please contact the administrator.''
             else if error_message error \<noteq> [] \<and> str_includes (error_message error) ''quota''
             then ''The AI service quota has been exceeded. Please try again later.''
             else if error_message error \<noteq> [] \<and> str_includes (error_message error) ''overloaded''
             then ''The AI service is currently overloaded. Please try again in a moment.''
             else ''Failed to process message. Please try again.'')
      in \<lparr>statusCode = 500,
          json = JObj [(''success'', JBool False), (''error'', JStr errorMessage)]\<rparr>)"

text \<open>
  \<^verbatim>\<open>handleChatMessage(req, res)\<close>.  A message that is truthy and not a string has
  no \<^verbatim>\<open>trim\<close> method: the call throws a TypeError, which the \<^verbatim>\<open>catch\<close> answers.
\<close>

definition handleChatMessage :: "runtime \<Rightarrow> prisma \<Rightarrow> model \<Rightarrow> chat_request \<Rightarrow> response \<times> call list" where
  "handleChatMessage rt prisma model req =
     (let message = body_message req
      in if \<not> truthy message then (messageRequired, [])
         else case message of
                JStr m \<Rightarrow>
                  if trim m = [] then (messageRequired, [])
                  else (case processChatMessage rt prisma model m of
                          (Inl error, calls) \<Rightarrow> (chatbotError error, calls)
                        | (Inr result, calls) \<Rightarrow>
                            (\<lparr>statusCode = 200,
                              json = JObj [(''success'', JBool True), (''data'', result)]\<rparr>,
                             calls))
              | _ \<Rightarrow> (chatbotError (Error ''message.trim is not a function''), []))"

section \<open>Vocabulary of the statements\<close>

text \<open>The elements of a JSON array.\<close>

fun elements :: "jsval \<Rightarrow> jsval list" where
  "elements (JArr xs) = xs"
| "elements _ = []"

text \<open>
  The query that the controller and the first revision of the service send for the
  date \<open>d\<close>, their business hours for a day of the week, and the slots they keep given
  the rows the store returned.
\<close>

definition blockingQuery :: "runtime \<Rightarrow> jsdate \<Rightarrow> where_clause" where
  "blockingQuery rt d = \<lparr>gte = setHours rt d 0 0 0 0, lte = setHours rt d 23 59 59 999,
     statusFilter = StatusIn [''scheduled'', ''confirmed'', ''in_progress'']\<rparr>"

definition startHourOf :: "int option \<Rightarrow> int" where
  "startHourOf dayOfWeek = (if dayOfWeek = Some 6 then 8 else 9)"

definition endHourOf :: "int option \<Rightarrow> int" where
  "endHourOf dayOfWeek = (if dayOfWeek = Some 6 then 19 else 18)"

definition openSlots :: "runtime \<Rightarrow> int option \<Rightarrow> int list \<Rightarrow> slot list" where
  "openSlots rt dayOfWeek rows =
     filter (\<lambda>slot. \<not> List.member (map (\<lambda>apt. getHours rt (Some apt)) rows) (Some (hour slot)))
       (allSlotsFrom (startHourOf dayOfWeek) (endHourOf dayOfWeek))"

text \<open>
  The local hour of an instant; the window of \<open>t\<close> that the code queries, from 00:00:00.000
  to 23:59:59.999 of the local day that contains the instant \<open>t\<close>, as \<^verbatim>\<open>setHours\<close>
  computes the two bounds; whether both bounds are representable time values; and the
  rows of a table that the blocking query for that window selects.  The window is the
  code's own: for a date-only string, parsed as midnight UTC, it is the previous calendar
  day in a zone west of UTC.
\<close>

definition hourOf :: "runtime \<Rightarrow> int \<Rightarrow> int" where
  "hourOf rt t = (LocalTime rt t div msPerHour) mod 24"

definition onLocalDay :: "runtime \<Rightarrow> int \<Rightarrow> int \<Rightarrow> bool" where
  "onLocalDay rt t x =
     (case (setHours rt (Some t) 0 0 0 0, setHours rt (Some t) 23 59 59 999) of
        (Some startOfDay, Some endOfDay) \<Rightarrow> startOfDay \<le> x \<and> x \<le> endOfDay
      | _ \<Rightarrow> False)"

definition dayRepresentable :: "runtime \<Rightarrow> int \<Rightarrow> bool" where
  "dayRepresentable rt t =
     (setHours rt (Some t) 0 0 0 0 \<noteq> None \<and> setHours rt (Some t) 23 59 59 999 \<noteq> None)"

definition blockingRows :: "runtime \<Rightarrow> int \<Rightarrow> appointment list \<Rightarrow> int list" where
  "blockingRows rt t db =
     map scheduledDate
       (filter (\<lambda>a. onLocalDay rt t (scheduledDate a)
                    \<and> status a \<in> {''scheduled'', ''confirmed'', ''in_progress''}) db)"

section \<open>A concrete runtime and concrete tables\<close>

text \<open>
  A runtime in the UTC zone, with the \<^verbatim>\<open>Date\<close> constructor and \<^verbatim>\<open>JSON.parse\<close>
  tabulated at the arguments used below: 2025-11-09 is a Sunday, 2025-11-12 a Wednesday
  and 2025-11-15 a Saturday, each parsed as midnight UTC; every other argument is
  taken as unparseable, as the strings \<^verbatim>\<open>not-a-date\<close> and \<^verbatim>\<open>someday\<close> are.
\<close>

definition utcRuntime :: runtime where
  \<open>utcRuntime = \<lparr>
     Date_of = (\<lambda>v. if v = JStr ''2025-11-09'' then Some 1762646400000
                    else if v = JStr ''2025-11-12'' then Some 1762905600000
                    else if v = JStr ''2025-11-15'' then Some 1763164800000
                    else None),
     LocalTZA = (\<lambda>t isUTC. 0),
     JSON_parse =
       (\<lambda>s. if s = ''{"intent":"appointment_query","date":"someday","userFriendlyDate":null}''
            then Some (JObj [(''intent'', JStr ''appointment_query''),
                             (''date'', JStr ''someday''),
                             (''userFriendlyDate'', JNull)])
            else None),
     now_toISOString = ''2025-11-06T08:00:00.000Z''\<rparr>\<close>


text \<open>
  Tables of bookings on Wednesday 2025-11-12: 09:00 confirmed and 14:00 completed; two
  bookings at 10:00 and one at 20:00, all scheduled; one confirmed booking at 09:30; one
  confirmed booking at 09:00.
\<close>

definition wednesdayBookings :: "appointment list" where
  "wednesdayBookings =
     [\<lparr>scheduledDate = 1762938000000, status = ''confirmed''\<rparr>,
      \<lparr>scheduledDate = 1762956000000, status = ''completed''\<rparr>]"

definition duplicateBookings :: "appointment list" where
  "duplicateBookings =
     [\<lparr>scheduledDate = 1762941600000, status = ''scheduled''\<rparr>,
      \<lparr>scheduledDate = 1762941600000, status = ''scheduled''\<rparr>,
      \<lparr>scheduledDate = 1762977600000, status = ''scheduled''\<rparr>]"

definition halfPastNineBooking :: "appointment list" where
  "halfPastNineBooking = [\<lparr>scheduledDate = 1762939800000, status = ''confirmed''\<rparr>]"

definition nineOClockBooking :: "appointment list" where
  "nineOClockBooking = [\<lparr>scheduledDate = 1762938000000, status = ''confirmed''\<rparr>]"

text \<open>
  Two language models: one answers the extraction prompt with text that holds no JSON,
  the other with an envelope whose date is not a date.
\<close>

definition notJsonModel :: model where
  "notJsonModel p = (case p of ExtractionPrompt m d \<Rightarrow> Inr ''Not JSON''
                     | _ \<Rightarrow> Inr ''Hello! I can help you book an appointment.'')"

definition somedayModel :: model where
  \<open>somedayModel p =
     (case p of
        ExtractionPrompt m d \<Rightarrow>
          Inr ''{"intent":"appointment_query","date":"someday","userFriendlyDate":null}''
      | _ \<Rightarrow> Inr ''Hello! I can help you book an appointment.'')\<close>

section \<open>Slot generation\<close>



lemma allSlotsFrom_upto:
  "allSlotsFrom a b = map (\<lambda>h. \<lparr>hour = h, time = padStart 2 (CHR ''0'') (toString h) @ '':00'',
            display = formatHourDisplay h\<rparr>) [a..b - 1]"
proof (induction a b rule: allSlotsFrom.induct)
  case (1 h endHour)
  show ?case
  proof (cases "h < endHour")
    case True
    then have "[h..endHour - 1] = h # [h + 1..endHour - 1]"
      by (simp add: upto_rec1)
    with True 1 show ?thesis
      by (subst allSlotsFrom.simps) simp
  next
    case False
    then show ?thesis by (subst allSlotsFrom.simps) simp
  qed
qed

lemma hours_allSlotsFrom: "map hour (allSlotsFrom a b) = [a..b - 1]"
  by (simp add: allSlotsFrom_upto comp_def)

lemma length_allSlotsFrom: "length (allSlotsFrom a b) = nat (b - a)"
  using arg_cong [OF hours_allSlotsFrom [of a b], of length] by simp

lemma displays_of_day:
  "map formatHourDisplay [0..23] =
     [''12:00 AM'', ''1:00 AM'', ''2:00 AM'', ''3:00 AM'', ''4:00 AM'', ''5:00 AM'',
      ''6:00 AM'', ''7:00 AM'', ''8:00 AM'', ''9:00 AM'', ''10:00 AM'', ''11:00 AM'',
      ''12:00 PM'', ''1:00 PM'', ''2:00 PM'', ''3:00 PM'', ''4:00 PM'', ''5:00 PM'',
      ''6:00 PM'', ''7:00 PM'', ''8:00 PM'', ''9:00 PM'', ''10:00 PM'', ''11:00 PM'']"
  by code_simp

lemma inj_formatHourDisplay: "inj_on formatHourDisplay {0..23}"
proof -
  have "distinct
     [''12:00 AM'', ''1:00 AM'', ''2:00 AM'', ''3:00 AM'', ''4:00 AM'', ''5:00 AM'',
      ''6:00 AM'', ''7:00 AM'', ''8:00 AM'', ''9:00 AM'', ''10:00 AM'', ''11:00 AM'',
      ''12:00 PM'', ''1:00 PM'', ''2:00 PM'', ''3:00 PM'', ''4:00 PM'', ''5:00 PM'',
      ''6:00 PM'', ''7:00 PM'', ''8:00 PM'', ''9:00 PM'', ''10:00 PM'', ''11:00 PM'']"
    by simp
  then have "distinct (map formatHourDisplay [0..23])"
    by (simp only: displays_of_day)
  then have "inj_on formatHourDisplay (set [0..23])"
    by (simp only: distinct_map)
  then show ?thesis
    unfolding set_upto .
qed

section \<open>The controller and the first revision of the service, unfolded\<close>

lemma handler_unfold:
  assumes "date \<noteq> []" and "getDay rt (Date_of rt (JStr date)) \<noteq> Some 0"
  shows "getAvailableTimeSlots rt prisma \<lparr>query_date = Some date\<rparr> =
    (case prisma (blockingQuery rt (Date_of rt (JStr date))) of
       Inl e \<Rightarrow> (failedToFetch, [FindMany (blockingQuery rt (Date_of rt (JStr date)))])
     | Inr rows \<Rightarrow>
        (\<lparr>statusCode = 200,
          json = JObj [(''success'', JBool True),
            (''data'', JObj [
               (''date'', JStr date),
               (''dayOfWeek'', getDayName (getDay rt (Date_of rt (JStr date)))),
               (''businessHours'',
                  JStr (formatHourDisplay (startHourOf (getDay rt (Date_of rt (JStr date)))) @ '' - ''
                        @ formatHourDisplay (endHourOf (getDay rt (Date_of rt (JStr date)))))),
               (''availableSlots'', JArr (map slotJson (openSlots rt (getDay rt (Date_of rt (JStr date))) rows))),
               (''totalSlots'', JNum (int (length (allSlotsFrom (startHourOf (getDay rt (Date_of rt (JStr date)))) (endHourOf (getDay rt (Date_of rt (JStr date)))))))),
               (''bookedSlots'', JNum (int (length rows)))])]\<rparr>,
         [FindMany (blockingQuery rt (Date_of rt (JStr date)))]))"
  using assms
  by (simp add: getAvailableTimeSlots_def Let_def blockingQuery_def startHourOf_def endHourOf_def
      openSlots_def split: sum.splits)

lemma chat_unfold:
  assumes "getDay rt (Date_of rt date) \<noteq> Some 0"
  shows "chatbotService_getAvailableTimeSlots rt prisma date =
    (case prisma (blockingQuery rt (Date_of rt date)) of
       Inl e \<Rightarrow> (Inl e, [FindMany (blockingQuery rt (Date_of rt date))])
     | Inr rows \<Rightarrow>
        (Inr (map display (openSlots rt (getDay rt (Date_of rt date)) rows)),
         [FindMany (blockingQuery rt (Date_of rt date))]))"
  using assms
  by (simp add: chatbotService_getAvailableTimeSlots_def Let_def blockingQuery_def startHourOf_def endHourOf_def
      openSlots_def split: sum.splits)

lemma getProp_slotJson:
  "getProp (slotJson x) ''display'' = JStr (display x)"
  "getProp (slotJson x) ''hour'' = JNum (hour x)"
  "getProp (slotJson x) ''time'' = JStr (time x)"
  by (simp_all add: slotJson_def)

lemma data_fields:
  "dataField \<lparr>statusCode = c, json = JObj [(''success'', s), (''data'', JObj
      [(''date'', d), (''dayOfWeek'', n), (''businessHours'', b), (''availableSlots'', a),
       (''totalSlots'', t), (''bookedSlots'', k)])]\<rparr> ''availableSlots'' = a"
  "dataField \<lparr>statusCode = c, json = JObj [(''success'', s), (''data'', JObj
      [(''date'', d), (''dayOfWeek'', n), (''businessHours'', b), (''availableSlots'', a),
       (''totalSlots'', t), (''bookedSlots'', k)])]\<rparr> ''totalSlots'' = t"
  "dataField \<lparr>statusCode = c, json = JObj [(''success'', s), (''data'', JObj
      [(''date'', d), (''dayOfWeek'', n), (''businessHours'', b), (''availableSlots'', a),
       (''totalSlots'', t), (''bookedSlots'', k)])]\<rparr> ''bookedSlots'' = k"
  "dataField \<lparr>statusCode = c, json = JObj [(''success'', s), (''data'', JObj
      [(''date'', d), (''dayOfWeek'', n), (''businessHours'', b), (''availableSlots'', a),
       (''totalSlots'', t), (''bookedSlots'', k)])]\<rparr> ''businessHours'' = b"
  by (simp_all add: dataField_def)

lemma available_hours:
  "set (map (\<lambda>s. getProp s ''hour'') (map slotJson xs)) = JNum ` set (map hour xs)"
  by (auto simp: getProp_slotJson)

lemma getHours_Some: "getHours rt (Some t) = Some (hourOf rt t)"
  by (simp add: getHours_def hourOf_def)

lemma hourOf_range: "0 \<le> hourOf rt t" "hourOf rt t \<le> 23"
  by (simp_all add: hourOf_def)

lemma hours_openSlots:
  "map hour (openSlots rt dow rows) =
     filter (\<lambda>h. h \<notin> hourOf rt ` set rows) [startHourOf dow..endHourOf dow - 1]"
proof -
  let ?slots = "allSlotsFrom (startHourOf dow) (endHourOf dow)"
  have "openSlots rt dow rows = filter (\<lambda>slot. hour slot \<notin> hourOf rt ` set rows) ?slots"
    unfolding openSlots_def
    by (rule filter_cong) (auto simp: getHours_Some image_iff)
  then have "map hour (openSlots rt dow rows)
             = filter (\<lambda>h. h \<notin> hourOf rt ` set rows) (map hour ?slots)"
    by (simp add: filter_map comp_def)
  then show ?thesis
    by (simp only: hours_allSlotsFrom)
qed

lemma set_hours_openSlots:
  "set (map hour (openSlots rt dow rows)) =
     {startHourOf dow..<endHourOf dow} - hourOf rt ` set rows"
  by (auto simp: hours_openSlots)

lemma length_openSlots:
  "int (length (openSlots rt dow rows)) =
     (endHourOf dow - startHourOf dow)
     - int (card (hourOf rt ` set rows \<inter> {startHourOf dow..<endHourOf dow}))"
proof -
  let ?S = "{startHourOf dow..<endHourOf dow}" and ?B = "hourOf rt ` set rows"
  have le: "startHourOf dow \<le> endHourOf dow"
    by (simp add: startHourOf_def endHourOf_def)
  have "distinct (map hour (openSlots rt dow rows))"
    by (simp add: hours_openSlots)
  then have "length (openSlots rt dow rows) = card (set (map hour (openSlots rt dow rows)))"
    using distinct_card [of "map hour (openSlots rt dow rows)"] by simp
  also have "\<dots> = card (?S - ?B)"
    by (simp only: set_hours_openSlots)
  also have "\<dots> = card ?S - card (?B \<inter> ?S)"
    by (simp add: card_Diff_subset_Int inf_commute)
  finally have "length (openSlots rt dow rows) = card ?S - card (?B \<inter> ?S)" .
  moreover have "card (?B \<inter> ?S) \<le> card ?S"
    by (rule card_mono) auto
  moreover have "int (card ?S) = endHourOf dow - startHourOf dow"
    using le by simp
  ultimately show ?thesis by linarith
qed

lemma display_openSlots:
  "map display (openSlots rt dow rows) = map formatHourDisplay (map hour (openSlots rt dow rows))"
  by (simp add: openSlots_def allSlotsFrom_upto filter_map comp_def)

lemma label_in_openSlots:
  assumes "0 \<le> h" and "h \<le> 23"
  shows "formatHourDisplay h \<in> set (map display (openSlots rt dow rows))
         \<longleftrightarrow> h \<in> {startHourOf dow..<endHourOf dow} - hourOf rt ` set rows"
proof -
  have sub: "set (map hour (openSlots rt dow rows)) \<subseteq> {0..23}"
    unfolding set_hours_openSlots
    by (auto simp: startHourOf_def endHourOf_def split: if_splits)
  have h: "h \<in> {0..23}"
    using assms by simp
  have "formatHourDisplay h \<in> formatHourDisplay ` set (map hour (openSlots rt dow rows))
        \<longleftrightarrow> h \<in> set (map hour (openSlots rt dow rows))"
    using inj_on_image_mem_iff [OF inj_formatHourDisplay h sub] .
  then show ?thesis
    by (simp only: display_openSlots set_map [of formatHourDisplay] set_hours_openSlots)
qed

lemma openSlots_hours_only:
  assumes "map (hourOf rt) rows = map (hourOf rt) rows'"
  shows "openSlots rt dow rows = openSlots rt dow rows'"
proof -
  have "map (\<lambda>apt. getHours rt (Some apt)) rows = map Some (map (hourOf rt) rows)" for rows
    by (simp add: getHours_Some)
  with assms show ?thesis
    by (simp only: openSlots_def)
qed

lemma findMany_blockingQuery:
  assumes "dayRepresentable rt t"
  shows "findMany db (blockingQuery rt (Some t)) = Inr (blockingRows rt t db)"
proof -
  from assms obtain lo hi
    where "setHours rt (Some t) 0 0 0 0 = Some lo" and "setHours rt (Some t) 23 59 59 999 = Some hi"
    by (auto simp: dayRepresentable_def)
  then show ?thesis
    by (simp add: findMany_def blockingQuery_def blockingRows_def onLocalDay_def)
qed

lemma findMany_not_representable:
  assumes "\<not> dayRepresentable rt t"
  shows "\<exists>e. findMany db (blockingQuery rt (Some t)) = Inl e"
  using assms
  by (auto simp: dayRepresentable_def findMany_def blockingQuery_def split: option.splits)

lemma hour_blocked:
  "h \<in> hourOf rt ` set (blockingRows rt t db) \<longleftrightarrow>
     (\<exists>a\<in>set db. onLocalDay rt t (scheduledDate a) \<and> hourOf rt (scheduledDate a) = h
                  \<and> status a \<in> {''scheduled'', ''confirmed'', ''in_progress''})"
  by (auto simp: blockingRows_def)

lemma handler_open_day:
  assumes "date \<noteq> []" and "Date_of rt (JStr date) = Some t"
    and "getDay rt (Some t) = dow" and "dow \<noteq> Some 0"
    and "dayRepresentable rt t"
  shows "getAvailableTimeSlots rt (findMany db) \<lparr>query_date = Some date\<rparr> =
      (\<lparr>statusCode = 200,
          json = JObj [(''success'', JBool True),
            (''data'', JObj [
               (''date'', JStr date),
               (''dayOfWeek'', getDayName dow),
               (''businessHours'',
                  JStr (formatHourDisplay (startHourOf dow) @ '' - ''
                        @ formatHourDisplay (endHourOf dow))),
               (''availableSlots'', JArr (map slotJson (openSlots rt dow (blockingRows rt t db)))),
               (''totalSlots'', JNum (int (length (allSlotsFrom (startHourOf dow) (endHourOf dow))))),
               (''bookedSlots'', JNum (int (length (blockingRows rt t db))))])]\<rparr>,
         [FindMany (blockingQuery rt (Some t))])"
  using assms by (simp add: handler_unfold findMany_blockingQuery)

lemma chat_open_day:
  assumes "Date_of rt (JStr date) = Some t"
    and "getDay rt (Some t) = dow" and "dow \<noteq> Some 0"
    and "dayRepresentable rt t"
  shows "chatbotService_getAvailableTimeSlots rt (findMany db) (JStr date) =
      (Inr (map display (openSlots rt dow (blockingRows rt t db))),
       [FindMany (blockingQuery rt (Some t))])"
  using assms by (simp add: chat_unfold findMany_blockingQuery)

lemma setHours_None: "setHours rt None h m s ms = None"
  by (simp add: setHours_def)

lemma getDay_None: "getDay rt None = None"
  by (simp add: getDay_def)

section \<open>The chatbot: blank messages and the fallback\<close>

lemma trim_blank:
  assumes "\<forall>c\<in>set m. isWhiteSpace c"
  shows "trim m = []"
proof -
  from assms have blank: "dropWhile isWhiteSpace m = []"
    by simp
  show ?thesis
    unfolding trim_def blank by simp
qed

lemma extract_fallback:
  assumes "model (ExtractionPrompt userMessage
                    (takeWhile (\<lambda>c. c \<noteq> CHR ''T'') (now_toISOString rt))) = Inr content"
    and "matchBraces (trim content) = None
         \<or> (\<exists>m. matchBraces (trim content) = Some m \<and> JSON_parse rt m = None)"
  shows "extractDateAndIntent rt model userMessage
         = (Inr fallbackIntent,
            [Invoke (ExtractionPrompt userMessage
                       (takeWhile (\<lambda>c. c \<noteq> CHR ''T'') (now_toISOString rt)))])"
  using assms by (auto simp: extractDateAndIntent_def Let_def)

section \<open>Facts of the concrete runtime\<close>

lemma utc_days:
  "getDay utcRuntime (Date_of utcRuntime (JStr ''2025-11-09'')) = Some 0"
  "getDay utcRuntime (Date_of utcRuntime (JStr ''2025-11-12'')) = Some 3"
  "getDay utcRuntime (Date_of utcRuntime (JStr ''2025-11-15'')) = Some 6"
  by (simp_all add: utcRuntime_def getDay_def LocalTime_def msPerDay_def)

lemma utc_wednesday: "Date_of utcRuntime (JStr ''2025-11-12'') = Some 1762905600000"
  by (simp add: utcRuntime_def)

lemma utc_wednesday_day: "getDay utcRuntime (Some 1762905600000) = Some 3"
  by (simp add: utcRuntime_def getDay_def LocalTime_def msPerDay_def)


lemma utc_wednesday_representable: "dayRepresentable utcRuntime 1762905600000"
  by (simp add: dayRepresentable_def setHours_def TimeClip_def utcRuntime_def LocalTime_def
        UTC_def msPerDay_def msPerHour_def msPerMinute_def)

lemma duplicate_rows:
  "blockingRows utcRuntime 1762905600000 duplicateBookings
     = [1762941600000, 1762941600000, 1762977600000]"
  by code_simp

lemma duplicate_hours:
  "map (hourOf utcRuntime) [1762941600000, 1762941600000, 1762977600000] = [10, 10, 20]"
  by code_simp

lemma wednesday_bookings_at:
  "(\<exists>a\<in>set wednesdayBookings. onLocalDay utcRuntime 1762905600000 (scheduledDate a)
        \<and> hourOf utcRuntime (scheduledDate a) = 9
        \<and> status a \<in> {''scheduled'', ''confirmed'', ''in_progress''})"
  "\<not> (\<exists>a\<in>set wednesdayBookings. onLocalDay utcRuntime 1762905600000 (scheduledDate a)
        \<and> hourOf utcRuntime (scheduledDate a) = 14
        \<and> status a \<in> {''scheduled'', ''confirmed'', ''in_progress''})"
  by (simp_all add: wednesdayBookings_def onLocalDay_def setHours_def TimeClip_def hourOf_def
        utcRuntime_def LocalTime_def UTC_def msPerDay_def msPerHour_def msPerMinute_def)

lemma half_past_rows:
  "findMany halfPastNineBooking (blockingQuery utcRuntime (Date_of utcRuntime (JStr ''2025-11-12'')))
     = Inr [1762939800000]"
  "findMany nineOClockBooking (blockingQuery utcRuntime (Date_of utcRuntime (JStr ''2025-11-12'')))
     = Inr [1762938000000]"
  by code_simp+

lemma half_past_hours:
  "map (hourOf utcRuntime) [1762939800000] = [9]"
  "map (hourOf utcRuntime) [1762938000000] = [9]"
  by code_simp+

lemma chat_wednesday:
  "chatbotService_getAvailableTimeSlots utcRuntime (findMany wednesdayBookings) (JStr ''2025-11-12'')
   = (Inr [''10:00 AM'', ''11:00 AM'', ''12:00 PM'', ''1:00 PM'', ''2:00 PM'', ''3:00 PM'',
           ''4:00 PM'', ''5:00 PM''],
      [FindMany \<lparr>gte = Some 1762905600000, lte = Some 1762991999999,
                 statusFilter = StatusIn [''scheduled'', ''confirmed'', ''in_progress'']\<rparr>])"
  by code_simp

lemma notJson_extraction:
  "notJsonModel (ExtractionPrompt ''Random text''
      (takeWhile (\<lambda>c. c \<noteq> CHR ''T'') (now_toISOString utcRuntime))) = Inr ''Not JSON''"
  "matchBraces (trim ''Not JSON'') = None"
  "notJsonModel (GeneralPrompt ''Random text'' (JStr ''other''))
     = Inr ''Hello! I can help you book an appointment.''"
  by code_simp+

section \<open>The two consumers compared\<close>

text \<open>
  C1, as amended.  For every date string that is not empty, every runtime and every
  store, the first revision of the chatbot service and the controller's handler make the
  same calls and keep the same slots: the service returns the display labels of the
  handler's available slots (none on a Sunday), and it throws exactly when the handler
  answers 500.  The second revision of the service is a different computation, as the
  Saturday below shows.
\<close>

theorem chatbot_agrees_with_handler:
  assumes "date \<noteq> []"
  shows "(case chatbotService_getAvailableTimeSlots rt prisma (JStr date) of
            (Inl e, calls) \<Rightarrow>
              getAvailableTimeSlots rt prisma \<lparr>query_date = Some date\<rparr> = (failedToFetch, calls)
          | (Inr labels, calls) \<Rightarrow>
              statusCode (fst (getAvailableTimeSlots rt prisma \<lparr>query_date = Some date\<rparr>)) = 200
              \<and> snd (getAvailableTimeSlots rt prisma \<lparr>query_date = Some date\<rparr>) = calls
              \<and> map (\<lambda>s. getProp s ''display'')
                    (elements (dataField (fst (getAvailableTimeSlots rt prisma
                                                \<lparr>query_date = Some date\<rparr>)) ''availableSlots''))
                  = map JStr labels)"
proof (cases "getDay rt (Date_of rt (JStr date)) = Some 0")
  case True
  with assms show ?thesis
    by (simp add: getAvailableTimeSlots_def chatbotService_getAvailableTimeSlots_def
          closedOnSundays_def dataField_def)
next
  case False
  with assms show ?thesis
    by (simp add: handler_unfold chat_unfold dataField_def getProp_slotJson
          split: sum.splits)
qed

theorem chatbot_agrees_with_handler_witness:
  "''2025-11-12'' \<noteq> []
   \<and> map (\<lambda>s. getProp s ''display'')
        (elements (dataField (fst (getAvailableTimeSlots utcRuntime (findMany wednesdayBookings)
                                    \<lparr>query_date = Some ''2025-11-12''\<rparr>)) ''availableSlots''))
       = map JStr [''10:00 AM'', ''11:00 AM'', ''12:00 PM'', ''1:00 PM'', ''2:00 PM'', ''3:00 PM'',
                   ''4:00 PM'', ''5:00 PM'']"
  using chatbot_agrees_with_handler [of "''2025-11-12''" utcRuntime "findMany wednesdayBookings"]
  by (simp add: chat_wednesday)

text \<open>
  On Saturday 2025-11-15 with no bookings the second revision of the service offers the
  nine slots 09:00 to 17:00, the handler the eleven slots 08:00 to 18:00.
\<close>

theorem second_revision_differs_on_saturday:
  "fst (chatbotService2_getAvailableTimeSlots utcRuntime (findMany []) (JStr ''2025-11-15''))
     = Inr [''09:00'', ''10:00'', ''11:00'', ''12:00'', ''13:00'', ''14:00'', ''15:00'',
            ''16:00'', ''17:00'']
   \<and> dataField (fst (getAvailableTimeSlots utcRuntime (findMany [])
                        \<lparr>query_date = Some ''2025-11-15''\<rparr>)) ''availableSlots''
     = JArr (map slotJson
         [\<lparr>hour = 8, time = ''08:00'', display = ''8:00 AM''\<rparr>,
          \<lparr>hour = 9, time = ''09:00'', display = ''9:00 AM''\<rparr>,
          \<lparr>hour = 10, time = ''10:00'', display = ''10:00 AM''\<rparr>,
          \<lparr>hour = 11, time = ''11:00'', display = ''11:00 AM''\<rparr>,
          \<lparr>hour = 12, time = ''12:00'', display = ''12:00 PM''\<rparr>,
          \<lparr>hour = 13, time = ''13:00'', display = ''1:00 PM''\<rparr>,
          \<lparr>hour = 14, time = ''14:00'', display = ''2:00 PM''\<rparr>,
          \<lparr>hour = 15, time = ''15:00'', display = ''3:00 PM''\<rparr>,
          \<lparr>hour = 16, time = ''16:00'', display = ''4:00 PM''\<rparr>,
          \<lparr>hour = 17, time = ''17:00'', display = ''5:00 PM''\<rparr>,
          \<lparr>hour = 18, time = ''18:00'', display = ''6:00 PM''\<rparr>])
   \<and> fst (chatbotService_getAvailableTimeSlots utcRuntime (findMany []) (JStr ''2025-11-15''))
     = Inr [''8:00 AM'', ''9:00 AM'', ''10:00 AM'', ''11:00 AM'', ''12:00 PM'', ''1:00 PM'',
            ''2:00 PM'', ''3:00 PM'', ''4:00 PM'', ''5:00 PM'', ''6:00 PM'']"
  by code_simp

section \<open>Counting booked slots\<close>

text \<open>
  C2, as amended.  On a day that \<^verbatim>\<open>getDay\<close> does not read as Sunday, and when both
  bounds of the queried window are representable time values, the handler reports as
  \<^verbatim>\<open>bookedSlots\<close> the number of rows the blocking query returns: one for every
  booking within the window (00:00:00.000 to 23:59:59.999 of the local day that contains
  the parsed instant) whose status is scheduled, confirmed or in_progress, so bookings at
  the same hour and bookings outside the business hours are each counted.
  \<^verbatim>\<open>totalSlots\<close> is the length of the business interval, and the number of available
  slots is \<^verbatim>\<open>totalSlots\<close> less the number of distinct occupied hours within the
  interval, so bookings at the same hour remove one slot only.
\<close>

theorem bookedSlots_counts_rows:
  assumes "date \<noteq> []"
    and "Date_of rt (JStr date) = Some t"
    and "getDay rt (Some t) = dow" and "dow \<noteq> Some 0"
    and "dayRepresentable rt t"
  shows "dataField (fst (getAvailableTimeSlots rt (findMany db) \<lparr>query_date = Some date\<rparr>))
           ''bookedSlots'' = JNum (int (length (blockingRows rt t db)))
       \<and> dataField (fst (getAvailableTimeSlots rt (findMany db) \<lparr>query_date = Some date\<rparr>))
           ''totalSlots'' = JNum (endHourOf dow - startHourOf dow)
       \<and> int (length (elements (dataField (fst (getAvailableTimeSlots rt (findMany db)
                \<lparr>query_date = Some date\<rparr>)) ''availableSlots'')))
         = (endHourOf dow - startHourOf dow)
           - int (card (hourOf rt ` set (blockingRows rt t db)
                        \<inter> {startHourOf dow..<endHourOf dow}))"
proof -
  have le: "startHourOf dow \<le> endHourOf dow"
    by (simp add: startHourOf_def endHourOf_def)
  from assms have
    "getAvailableTimeSlots rt (findMany db) \<lparr>query_date = Some date\<rparr> =
      (\<lparr>statusCode = 200,
          json = JObj [(''success'', JBool True),
            (''data'', JObj [
               (''date'', JStr date),
               (''dayOfWeek'', getDayName dow),
               (''businessHours'',
                  JStr (formatHourDisplay (startHourOf dow) @ '' - ''
                        @ formatHourDisplay (endHourOf dow))),
               (''availableSlots'', JArr (map slotJson (openSlots rt dow (blockingRows rt t db)))),
               (''totalSlots'', JNum (int (length (allSlotsFrom (startHourOf dow) (endHourOf dow))))),
               (''bookedSlots'', JNum (int (length (blockingRows rt t db))))])]\<rparr>,
         [FindMany (blockingQuery rt (Some t))])"
    by (simp add: handler_unfold findMany_blockingQuery)
  then show ?thesis
    using le length_openSlots [of rt dow "blockingRows rt t db"]
    by (simp add: data_fields length_allSlotsFrom)
qed

theorem bookedSlots_counts_rows_witness:
  "Date_of utcRuntime (JStr ''2025-11-12'') = Some 1762905600000
   \<and> getDay utcRuntime (Some 1762905600000) = Some 3
   \<and> dayRepresentable utcRuntime 1762905600000
   \<and> dataField (fst (getAvailableTimeSlots utcRuntime (findMany duplicateBookings)
                        \<lparr>query_date = Some ''2025-11-12''\<rparr>)) ''bookedSlots'' = JNum 3
   \<and> dataField (fst (getAvailableTimeSlots utcRuntime (findMany duplicateBookings)
                        \<lparr>query_date = Some ''2025-11-12''\<rparr>)) ''totalSlots'' = JNum 9
   \<and> length (elements (dataField (fst (getAvailableTimeSlots utcRuntime
               (findMany duplicateBookings) \<lparr>query_date = Some ''2025-11-12''\<rparr>))
               ''availableSlots'')) = 8"
proof -
  have "hourOf utcRuntime ` set [1762941600000, 1762941600000, 1762977600000] \<inter> {9..<18} = {10}"
    using duplicate_hours by auto
  then show ?thesis
    using bookedSlots_counts_rows [of "''2025-11-12''" utcRuntime 1762905600000 "Some 3"
            duplicateBookings]
    by (simp add: utc_wednesday utc_wednesday_day utc_wednesday_representable duplicate_rows
          startHourOf_def endHourOf_def)
qed

text \<open>
  Two bookings at 10:00 and one at 20:00 on Wednesday 2025-11-12: one distinct occupied
  hour lies within 9 to 18 and eight of the nine slots are open, yet
  \<^verbatim>\<open>bookedSlots\<close> is 3.
\<close>

theorem bookedSlots_counts_duplicates:
  "dataField (fst (getAvailableTimeSlots utcRuntime (findMany duplicateBookings)
                     \<lparr>query_date = Some ''2025-11-12''\<rparr>)) ''bookedSlots'' = JNum 3
   \<and> dataField (fst (getAvailableTimeSlots utcRuntime (findMany duplicateBookings)
                       \<lparr>query_date = Some ''2025-11-12''\<rparr>)) ''totalSlots'' = JNum 9
   \<and> length (elements (dataField (fst (getAvailableTimeSlots utcRuntime
               (findMany duplicateBookings) \<lparr>query_date = Some ''2025-11-12''\<rparr>))
               ''availableSlots'')) = 8
   \<and> map (hourOf utcRuntime) (map scheduledDate duplicateBookings) = [10, 10, 20]"
  by code_simp

section \<open>A date that does not parse\<close>

text \<open>
  C3, as amended.  A non-empty date string that does not parse is not rejected with 400,
  and the code has no InvalidDateError: the day of the week is NaN, so neither the Sunday
  nor the Saturday branch is taken, the weekday hours 9 to 18 are used and the store is
  queried with invalid bounds.  When that query throws, as the Prisma client does on an
  invalid \<^verbatim>\<open>Date\<close>, the handler answers 500 with the text
  \<^verbatim>\<open>Failed to fetch available time slots\<close>; were the query to return rows, it would
  answer 200 with the weekday schedule.
\<close>

theorem unparseable_date_not_validated:
  assumes "date \<noteq> []" and "Date_of rt (JStr date) = None"
  shows "snd (getAvailableTimeSlots rt prisma \<lparr>query_date = Some date\<rparr>)
           = [FindMany \<lparr>gte = None, lte = None,
                statusFilter = StatusIn [''scheduled'', ''confirmed'', ''in_progress'']\<rparr>]
       \<and> (case prisma \<lparr>gte = None, lte = None,
                statusFilter = StatusIn [''scheduled'', ''confirmed'', ''in_progress'']\<rparr> of
             Inl e \<Rightarrow>
               fst (getAvailableTimeSlots rt prisma \<lparr>query_date = Some date\<rparr>)
                 = \<lparr>statusCode = 500,
                    json = JObj [(''success'', JBool False),
                                 (''error'', JStr ''Failed to fetch available time slots'')]\<rparr>
           | Inr rows \<Rightarrow>
               statusCode (fst (getAvailableTimeSlots rt prisma \<lparr>query_date = Some date\<rparr>)) = 200
               \<and> dataField (fst (getAvailableTimeSlots rt prisma \<lparr>query_date = Some date\<rparr>))
                     ''businessHours'' = JStr ''9:00 AM - 6:00 PM''
               \<and> dataField (fst (getAvailableTimeSlots rt prisma \<lparr>query_date = Some date\<rparr>))
                     ''totalSlots'' = JNum 9)
       \<and> fst (getAvailableTimeSlots rt (findMany db) \<lparr>query_date = Some date\<rparr>)
           = \<lparr>statusCode = 500,
              json = JObj [(''success'', JBool False),
                           (''error'', JStr ''Failed to fetch available time slots'')]\<rparr>"
proof -
  have fhd: "formatHourDisplay 9 = ''9:00 AM''" "formatHourDisplay 18 = ''6:00 PM''"
    by (simp_all add: formatHourDisplay_def toString_def digits.simps)
  have q: "blockingQuery rt None = \<lparr>gte = None, lte = None,
                statusFilter = StatusIn [''scheduled'', ''confirmed'', ''in_progress'']\<rparr>"
    by (simp add: blockingQuery_def setHours_None)
  have day: "getDay rt (Date_of rt (JStr date)) \<noteq> Some 0"
    using assms by (simp add: getDay_None)
  have f: "findMany db \<lparr>gte = None, lte = None,
                statusFilter = StatusIn [''scheduled'', ''confirmed'', ''in_progress'']\<rparr>
           = Inl (Error ''Invalid value for argument gte: Provided Date object is invalid'')"
    by (simp add: findMany_def)
  show ?thesis
    using assms
    by (simp add: handler_unfold [OF assms(1) day] q f getDay_None startHourOf_def endHourOf_def
          failedToFetch_def data_fields length_allSlotsFrom fhd split: sum.splits)
qed

theorem unparseable_date_not_validated_witness:
  "''not-a-date'' \<noteq> [] \<and> Date_of utcRuntime (JStr ''not-a-date'') = None
   \<and> statusCode (fst (getAvailableTimeSlots utcRuntime (findMany wednesdayBookings)
                        \<lparr>query_date = Some ''not-a-date''\<rparr>)) = 500"
  using unparseable_date_not_validated [of "''not-a-date''" utcRuntime "findMany wednesdayBookings"
          wednesdayBookings]
  by (simp add: utcRuntime_def)

text \<open>The date \<^verbatim>\<open>not-a-date\<close> is answered with status 500, not 400.\<close>

theorem unparseable_date_answered_500:
  "getAvailableTimeSlots utcRuntime (findMany []) \<lparr>query_date = Some ''not-a-date''\<rparr>
   = (\<lparr>statusCode = 500,
       json = JObj [(''success'', JBool False),
                    (''error'', JStr ''Failed to fetch available time slots'')]\<rparr>,
      [FindMany \<lparr>gte = None, lte = None,
                 statusFilter = StatusIn [''scheduled'', ''confirmed'', ''in_progress'']\<rparr>])"
  by code_simp

section \<open>Which bookings block a slot\<close>

text \<open>
  C4, as amended.  In the handler and in the first revision of the chatbot service, for
  every table of bookings, on a day that \<^verbatim>\<open>getDay\<close> does not read as Sunday and when
  both bounds of the queried window are representable time values, for every hour \<open>h\<close>
  within the business hours: the slot at \<open>h\<close> is available exactly when no booking
  within the window (00:00:00.000 to 23:59:59.999 of the local day that contains the
  parsed instant) at local hour \<open>h\<close> has status scheduled, confirmed or in_progress:
  such a booking removes the slot, and a booking with any other status, cancelled and
  completed among them, never does.  In the second revision of the service every booking
  that is not cancelled removes its slot.
\<close>

theorem blocking_statuses_remove_slot:
  assumes "date \<noteq> []" and "Date_of rt (JStr date) = Some t"
    and "getDay rt (Some t) = dow" and "dow \<noteq> Some 0"
    and "startHourOf dow \<le> h" and "h < endHourOf dow"
    and "dayRepresentable rt t"
  shows "(JNum h \<in> set (map (\<lambda>s. getProp s ''hour'')
            (elements (dataField (fst (getAvailableTimeSlots rt (findMany db)
                                        \<lparr>query_date = Some date\<rparr>)) ''availableSlots''))))
         = (\<not> (\<exists>a\<in>set db. onLocalDay rt t (scheduledDate a) \<and> hourOf rt (scheduledDate a) = h
                  \<and> status a \<in> {''scheduled'', ''confirmed'', ''in_progress''}))
       \<and> (case fst (chatbotService_getAvailableTimeSlots rt (findMany db) (JStr date)) of
             Inl e \<Rightarrow> False
           | Inr labels \<Rightarrow> formatHourDisplay h \<in> set labels)
         = (\<not> (\<exists>a\<in>set db. onLocalDay rt t (scheduledDate a) \<and> hourOf rt (scheduledDate a) = h
                  \<and> status a \<in> {''scheduled'', ''confirmed'', ''in_progress''}))"
proof -
  have range: "0 \<le> h" "h \<le> 23"
    using assms(5,6) by (auto simp: startHourOf_def endHourOf_def split: if_splits)
  have "JNum h \<in> JNum ` set (map hour (openSlots rt dow (blockingRows rt t db)))
        \<longleftrightarrow> h \<notin> hourOf rt ` set (blockingRows rt t db)"
    using assms(5,6) unfolding set_hours_openSlots by auto
  then have handler: "JNum h \<in> set (map (\<lambda>s. getProp s ''hour'')
            (elements (dataField (fst (getAvailableTimeSlots rt (findMany db)
                                        \<lparr>query_date = Some date\<rparr>)) ''availableSlots'')))
        \<longleftrightarrow> h \<notin> hourOf rt ` set (blockingRows rt t db)"
    by (simp only: handler_open_day [OF assms(1-4) assms(7)] fst_conv data_fields
          elements.simps available_hours)
  have chat: "(case fst (chatbotService_getAvailableTimeSlots rt (findMany db) (JStr date)) of
             Inl e \<Rightarrow> False
           | Inr labels \<Rightarrow> formatHourDisplay h \<in> set labels)
        \<longleftrightarrow> h \<notin> hourOf rt ` set (blockingRows rt t db)"
    using assms(5,6) label_in_openSlots [OF range, of rt dow "blockingRows rt t db"]
    by (simp add: chat_open_day [OF assms(2-4) assms(7)])
  show ?thesis
    using handler chat by (simp only: hour_blocked)
qed

theorem blocking_statuses_remove_slot_witness:
  "Date_of utcRuntime (JStr ''2025-11-12'') = Some 1762905600000
   \<and> getDay utcRuntime (Some 1762905600000) = Some 3
   \<and> dayRepresentable utcRuntime 1762905600000
   \<and> JNum 9 \<notin> set (map (\<lambda>s. getProp s ''hour'')
            (elements (dataField (fst (getAvailableTimeSlots utcRuntime (findMany wednesdayBookings)
                                        \<lparr>query_date = Some ''2025-11-12''\<rparr>)) ''availableSlots'')))
   \<and> JNum 14 \<in> set (map (\<lambda>s. getProp s ''hour'')
            (elements (dataField (fst (getAvailableTimeSlots utcRuntime (findMany wednesdayBookings)
                                        \<lparr>query_date = Some ''2025-11-12''\<rparr>)) ''availableSlots'')))"
proof -
  have ne: "''2025-11-12'' \<noteq> []" and day: "Some (3::int) \<noteq> Some 0"
    by simp_all
  have r9: "startHourOf (Some 3) \<le> 9" "9 < endHourOf (Some 3)"
    and r14: "startHourOf (Some 3) \<le> 14" "14 < endHourOf (Some 3)"
    by (simp_all add: startHourOf_def endHourOf_def)
  note at9 = blocking_statuses_remove_slot
      [OF ne utc_wednesday utc_wednesday_day day r9 utc_wednesday_representable,
        of wednesdayBookings]
  note at14 = blocking_statuses_remove_slot
      [OF ne utc_wednesday utc_wednesday_day day r14 utc_wednesday_representable,
        of wednesdayBookings]
  from at9 wednesday_bookings_at(1) have "JNum 9 \<notin> set (map (\<lambda>s. getProp s ''hour'')
            (elements (dataField (fst (getAvailableTimeSlots utcRuntime (findMany wednesdayBookings)
                                        \<lparr>query_date = Some ''2025-11-12''\<rparr>)) ''availableSlots'')))"
    by blast
  moreover from at14 wednesday_bookings_at(2) have "JNum 14 \<in> set (map (\<lambda>s. getProp s ''hour'')
            (elements (dataField (fst (getAvailableTimeSlots utcRuntime (findMany wednesdayBookings)
                                        \<lparr>query_date = Some ''2025-11-12''\<rparr>)) ''availableSlots'')))"
    by blast
  ultimately show ?thesis
    using utc_wednesday utc_wednesday_day utc_wednesday_representable by blast
qed

text \<open>
  With a confirmed booking at 09:00 and a completed one at 14:00 on Wednesday 2025-11-12,
  the second revision of the service offers neither 09:00 nor 14:00.
\<close>

theorem completed_booking_blocks_in_second_revision:
  "chatbotService2_getAvailableTimeSlots utcRuntime (findMany wednesdayBookings)
     (JStr ''2025-11-12'')
   = (Inr [''10:00'', ''11:00'', ''12:00'', ''13:00'', ''15:00'', ''16:00'', ''17:00''],
      [FindMany \<lparr>gte = Some 1762905600000, lte = Some 1762991999999,
                 statusFilter = StatusNot ''cancelled''\<rparr>])"
  by code_simp

section \<open>Minutes\<close>

text \<open>
  C5, as amended.  In the handler and in the first revision of the chatbot service only
  the local hour of a booking matters: two stores whose returned bookings have the same
  hours, whatever their minutes, get the same response, and every returned booking
  removes the slot of its hour.  The second revision compares the booking's \<^verbatim>\<open>HH:MM\<close>
  with the slot's, so there a booking at 09:30 leaves the 09:00 slot open.
\<close>

theorem minutes_ignored:
  assumes "date \<noteq> []"
    and "prisma (blockingQuery rt (Date_of rt (JStr date))) = Inr rows"
    and "prisma' (blockingQuery rt (Date_of rt (JStr date))) = Inr rows'"
    and "map (hourOf rt) rows = map (hourOf rt) rows'"
  shows "getAvailableTimeSlots rt prisma \<lparr>query_date = Some date\<rparr>
         = getAvailableTimeSlots rt prisma' \<lparr>query_date = Some date\<rparr>
       \<and> chatbotService_getAvailableTimeSlots rt prisma (JStr date)
         = chatbotService_getAvailableTimeSlots rt prisma' (JStr date)
       \<and> (\<forall>x\<in>set rows.
            JNum (hourOf rt x) \<notin> set (map (\<lambda>s. getProp s ''hour'')
              (elements (dataField (fst (getAvailableTimeSlots rt prisma
                                          \<lparr>query_date = Some date\<rparr>)) ''availableSlots'')))
            \<and> (case fst (chatbotService_getAvailableTimeSlots rt prisma (JStr date)) of
                 Inl e \<Rightarrow> True
               | Inr labels \<Rightarrow> formatHourDisplay (hourOf rt x) \<notin> set labels))"
proof (cases "getDay rt (Date_of rt (JStr date)) = Some 0")
  case True
  with assms(1) show ?thesis
    by (simp add: getAvailableTimeSlots_def chatbotService_getAvailableTimeSlots_def
          closedOnSundays_def dataField_def)
next
  case False
  let ?dow = "getDay rt (Date_of rt (JStr date))"
  have same: "openSlots rt ?dow rows = openSlots rt ?dow rows'"
    using assms(4) by (rule openSlots_hours_only)
  have blocked: "JNum (hourOf rt x) \<notin> JNum ` set (map hour (openSlots rt ?dow rows))
      \<and> formatHourDisplay (hourOf rt x) \<notin> set (map display (openSlots rt ?dow rows))"
    if "x \<in> set rows" for x
    using that label_in_openSlots [of "hourOf rt x" rt ?dow rows] hourOf_range [of rt x]
    unfolding set_hours_openSlots by auto
  have len: "length rows = length rows'"
    using assms(4) by (rule map_eq_imp_length_eq)
  show ?thesis
    using blocked len
    by (simp only: handler_unfold [OF assms(1) False] chat_unfold [OF False] assms(2,3)
          sum.case fst_conv data_fields elements.simps available_hours same) simp
qed

theorem minutes_ignored_witness:
  "map (hourOf utcRuntime) [1762939800000] = map (hourOf utcRuntime) [1762938000000]
   \<and> getAvailableTimeSlots utcRuntime (findMany halfPastNineBooking)
         \<lparr>query_date = Some ''2025-11-12''\<rparr>
       = getAvailableTimeSlots utcRuntime (findMany nineOClockBooking)
           \<lparr>query_date = Some ''2025-11-12''\<rparr>
   \<and> JNum 9 \<notin> set (map (\<lambda>s. getProp s ''hour'')
         (elements (dataField (fst (getAvailableTimeSlots utcRuntime (findMany halfPastNineBooking)
                                     \<lparr>query_date = Some ''2025-11-12''\<rparr>)) ''availableSlots'')))"
proof -
  have ne: "''2025-11-12'' \<noteq> []" by simp
  have eq: "map (hourOf utcRuntime) [1762939800000] = map (hourOf utcRuntime) [1762938000000]"
    by (simp only: half_past_hours)
  note w = minutes_ignored [where rt = utcRuntime and prisma = "findMany halfPastNineBooking"
      and prisma' = "findMany nineOClockBooking", OF ne half_past_rows eq]
  have h: "hourOf utcRuntime 1762939800000 = 9"
    using half_past_hours(1) by simp
  from w have "\<forall>x\<in>set [1762939800000].
      JNum (hourOf utcRuntime x) \<notin> set (map (\<lambda>s. getProp s ''hour'')
         (elements (dataField (fst (getAvailableTimeSlots utcRuntime (findMany halfPastNineBooking)
                                     \<lparr>query_date = Some ''2025-11-12''\<rparr>)) ''availableSlots'')))"
    by blast
  then have "JNum (hourOf utcRuntime 1762939800000) \<notin> set (map (\<lambda>s. getProp s ''hour'')
         (elements (dataField (fst (getAvailableTimeSlots utcRuntime (findMany halfPastNineBooking)
                                     \<lparr>query_date = Some ''2025-11-12''\<rparr>)) ''availableSlots'')))"
    by (simp del: set_map)
  with w eq h show ?thesis
    by (simp only: simp_thms)
qed

text \<open>
  A confirmed booking at 09:30 on Wednesday 2025-11-12: the second revision of the
  service still offers 09:00.
\<close>

theorem half_past_booking_missed_in_second_revision:
  "chatbotService2_getAvailableTimeSlots utcRuntime (findMany halfPastNineBooking)
     (JStr ''2025-11-12'')
   = (Inr [''09:00'', ''10:00'', ''11:00'', ''12:00'', ''13:00'', ''14:00'', ''15:00'',
           ''16:00'', ''17:00''],
      [FindMany \<lparr>gte = Some 1762905600000, lte = Some 1762991999999,
                 statusFilter = StatusNot ''cancelled''\<rparr>])
   \<and> hourOf utcRuntime 1762939800000 = 9"
  by code_simp

section \<open>Sundays\<close>

text \<open>
  C6, as amended.  For every date whose local day of the week is Sunday, whatever the
  store holds or does (it is not queried), the handler answers 200 with the body
  \<^verbatim>\<open>{success: true, data: {availableSlots: [], message: "Service station is closed on Sundays"}}\<close>,
  which carries no \<^verbatim>\<open>isClosed\<close>, \<^verbatim>\<open>totalSlots\<close> or \<^verbatim>\<open>bookedSlots\<close>, and the
  first revision of the chatbot service returns the empty list.  The second revision has
  no Sunday rule.
\<close>

theorem closed_on_sundays:
  assumes "date \<noteq> []" and "getDay rt (Date_of rt (JStr date)) = Some 0"
  shows "getAvailableTimeSlots rt prisma \<lparr>query_date = Some date\<rparr>
           = (\<lparr>statusCode = 200,
               json = JObj [(''success'', JBool True),
                            (''data'', JObj [(''availableSlots'', JArr []),
                               (''message'', JStr ''Service station is closed on Sundays'')])]\<rparr>,
              [])
       \<and> chatbotService_getAvailableTimeSlots rt prisma (JStr date) = (Inr [], [])"
  using assms
  by (simp add: getAvailableTimeSlots_def chatbotService_getAvailableTimeSlots_def
        closedOnSundays_def)

theorem closed_on_sundays_witness:
  "''2025-11-09'' \<noteq> []
   \<and> getDay utcRuntime (Date_of utcRuntime (JStr ''2025-11-09'')) = Some 0
   \<and> statusCode (fst (getAvailableTimeSlots utcRuntime (findMany wednesdayBookings)
                        \<lparr>query_date = Some ''2025-11-09''\<rparr>)) = 200
   \<and> dataField (fst (getAvailableTimeSlots utcRuntime (findMany wednesdayBookings)
                        \<lparr>query_date = Some ''2025-11-09''\<rparr>)) ''availableSlots'' = JArr []
   \<and> dataField (fst (getAvailableTimeSlots utcRuntime (findMany wednesdayBookings)
                        \<lparr>query_date = Some ''2025-11-09''\<rparr>)) ''message''
       = JStr ''Service station is closed on Sundays''
   \<and> fst (chatbotService_getAvailableTimeSlots utcRuntime (findMany wednesdayBookings)
            (JStr ''2025-11-09'')) = Inr []"
  using closed_on_sundays [of "''2025-11-09''" utcRuntime "findMany wednesdayBookings"]
  by (simp add: utc_days dataField_def)

text \<open>
  On Sunday 2025-11-09 the second revision of the service offers nine slots, and the
  handler's body has neither \<^verbatim>\<open>isClosed\<close> nor \<^verbatim>\<open>totalSlots\<close>.
\<close>

theorem second_revision_open_on_sunday:
  "chatbotService2_getAvailableTimeSlots utcRuntime (findMany []) (JStr ''2025-11-09'')
   = (Inr [''09:00'', ''10:00'', ''11:00'', ''12:00'', ''13:00'', ''14:00'', ''15:00'',
           ''16:00'', ''17:00''],
      [FindMany \<lparr>gte = Some 1762646400000, lte = Some 1762732799999,
                 statusFilter = StatusNot ''cancelled''\<rparr>])
   \<and> dataField (fst (getAvailableTimeSlots utcRuntime (findMany [])
                        \<lparr>query_date = Some ''2025-11-09''\<rparr>)) ''isClosed'' = JUndefined
   \<and> dataField (fst (getAvailableTimeSlots utcRuntime (findMany [])
                        \<lparr>query_date = Some ''2025-11-09''\<rparr>)) ''totalSlots'' = JUndefined"
  by code_simp

section \<open>The full schedule\<close>




section \<open>The answer of the extraction model\<close>

text \<open>
  C8, as amended.  When no JSON envelope can be extracted from the model's answer (no
  brace-delimited span, or \<^verbatim>\<open>JSON.parse\<close> throws on the span),
  \<^verbatim>\<open>extractDateAndIntent\<close> returns
  \<^verbatim>\<open>{intent: "other", date: null, userFriendlyDate: null}\<close> without throwing, and
  \<^verbatim>\<open>processChatMessage\<close> goes on to the general reply with intent \<^verbatim>\<open>other\<close>,
  no slots and no date.  An envelope that parses is returned as it is: its
  \<^verbatim>\<open>date\<close> is not validated.
\<close>

theorem no_envelope_falls_back:
  assumes "model (ExtractionPrompt userMessage
                    (takeWhile (\<lambda>c. c \<noteq> CHR ''T'') (now_toISOString rt))) = Inr content"
    and "matchBraces (trim content) = None
         \<or> (\<exists>m. matchBraces (trim content) = Some m \<and> JSON_parse rt m = None)"
  shows "fst (extractDateAndIntent rt model userMessage)
           = Inr (JObj [(''intent'', JStr ''other''), (''date'', JNull),
                        (''userFriendlyDate'', JNull)])
       \<and> fst (processChatMessage rt prisma model userMessage)
           = (case model (GeneralPrompt userMessage (JStr ''other'')) of
                Inl error \<Rightarrow> Inl error
              | Inr reply \<Rightarrow>
                  Inr (JObj [(''reply'', JStr reply), (''intent'', JStr ''other''),
                             (''availableSlots'', JNull), (''date'', JNull)]))
       \<and> snd (processChatMessage rt prisma model userMessage)
           = [Invoke (ExtractionPrompt userMessage
                        (takeWhile (\<lambda>c. c \<noteq> CHR ''T'') (now_toISOString rt))),
              Invoke (GeneralPrompt userMessage (JStr ''other''))]"
  using extract_fallback [where model = model and rt = rt, OF assms]
  by (simp add: processChatMessage_def fallbackIntent_def generateGeneralResponse_def Let_def
        split: sum.splits)

theorem no_envelope_falls_back_witness:
  "notJsonModel (ExtractionPrompt ''Random text''
      (takeWhile (\<lambda>c. c \<noteq> CHR ''T'') (now_toISOString utcRuntime))) = Inr ''Not JSON''
   \<and> matchBraces (trim ''Not JSON'') = None
   \<and> fst (extractDateAndIntent utcRuntime notJsonModel ''Random text'')
       = Inr (JObj [(''intent'', JStr ''other''), (''date'', JNull),
                    (''userFriendlyDate'', JNull)])
   \<and> fst (processChatMessage utcRuntime (findMany wednesdayBookings) notJsonModel ''Random text'')
       = Inr (JObj [(''reply'', JStr ''Hello! I can help you book an appointment.''),
                    (''intent'', JStr ''other''), (''availableSlots'', JNull),
                    (''date'', JNull)])"
proof -
  have "matchBraces (trim ''Not JSON'') = None
        \<or> (\<exists>m. matchBraces (trim ''Not JSON'') = Some m \<and> JSON_parse utcRuntime m = None)"
    using notJson_extraction(2) by blast
  from no_envelope_falls_back [where model = notJsonModel and rt = utcRuntime
         and prisma = "findMany wednesdayBookings", OF notJson_extraction(1) this]
  show ?thesis
    by (simp add: notJson_extraction)
qed

text \<open>
  The model answers with an envelope of intent \<^verbatim>\<open>appointment_query\<close> and date
  \<^verbatim>\<open>someday\<close>: the envelope is returned unchanged, the slot lookup throws on the
  invalid date and the controller answers 500.
\<close>

theorem unparseable_oracle_date_surfaces:
  \<open>extractDateAndIntent utcRuntime somedayModel ''When can I come?''
     = (Inr (JObj [(''intent'', JStr ''appointment_query''), (''date'', JStr ''someday''),
                   (''userFriendlyDate'', JNull)]),
        [Invoke (ExtractionPrompt ''When can I come?'' ''2025-11-06'')])
   \<and> Date_of utcRuntime (JStr ''someday'') = None
   \<and> handleChatMessage utcRuntime (findMany []) somedayModel
         \<lparr>body_message = JStr ''When can I come?''\<rparr>
       = (\<lparr>statusCode = 500,
           json = JObj [(''success'', JBool False),
                        (''error'', JStr ''Failed to process message. Please try again.'')]\<rparr>,
          [Invoke (ExtractionPrompt ''When can I come?'' ''2025-11-06''),
           FindMany \<lparr>gte = None, lte = None,
                      statusFilter = StatusIn [''scheduled'', ''confirmed'', ''in_progress'']\<rparr>])\<close>
  by code_simp

section \<open>Requests that are rejected at once\<close>

text \<open>
  C9.  An available-slots request with no \<^verbatim>\<open>date\<close> query parameter (or an empty one)
  is answered 400 with \<^verbatim>\<open>{success: false, error: "Date is required"}\<close>, and a chatbot
  request with a missing or empty \<^verbatim>\<open>message\<close> is answered 400 with
  \<^verbatim>\<open>{success: false, error: "Message is required"}\<close>; in both cases no call is made:
  no booking fetch and no model invocation, whatever the store and the model are.
\<close>

theorem missing_input_rejected:
  "(query_date req = None \<or> query_date req = Some [] \<longrightarrow>
      getAvailableTimeSlots rt prisma req
        = (\<lparr>statusCode = 400,
            json = JObj [(''success'', JBool False), (''error'', JStr ''Date is required'')]\<rparr>,
           []))
   \<and> (body_message creq = JUndefined \<or> body_message creq = JStr [] \<longrightarrow>
      handleChatMessage rt prisma model creq
        = (\<lparr>statusCode = 400,
            json = JObj [(''success'', JBool False), (''error'', JStr ''Message is required'')]\<rparr>,
           []))"
  by (auto simp: getAvailableTimeSlots_def handleChatMessage_def dateRequired_def
        messageRequired_def)

theorem missing_input_rejected_witness:
  "query_date \<lparr>query_date = None\<rparr> = None
   \<and> getAvailableTimeSlots utcRuntime (findMany wednesdayBookings) \<lparr>query_date = None\<rparr>
       = (\<lparr>statusCode = 400,
           json = JObj [(''success'', JBool False), (''error'', JStr ''Date is required'')]\<rparr>,
          [])
   \<and> body_message \<lparr>body_message = JStr []\<rparr> = JStr []
   \<and> handleChatMessage utcRuntime (findMany wednesdayBookings) notJsonModel
         \<lparr>body_message = JStr []\<rparr>
       = (\<lparr>statusCode = 400,
           json = JObj [(''success'', JBool False), (''error'', JStr ''Message is required'')]\<rparr>,
          [])"
  using missing_input_rejected [of "\<lparr>query_date = None\<rparr>" utcRuntime
          "findMany wednesdayBookings" "\<lparr>body_message = JStr []\<rparr>" notJsonModel]
  by simp

text \<open>
  C10.  A chat message that is not empty and consists of white space only is answered
  400 with \<^verbatim>\<open>{success: false, error: "Message is required"}\<close>, as an empty message is,
  and no call is made: neither the model nor the store is reached.
\<close>

theorem blank_message_rejected:
  assumes "m \<noteq> []" and "\<forall>c\<in>set m. isWhiteSpace c"
  shows "handleChatMessage rt prisma model \<lparr>body_message = JStr m\<rparr>
         = (\<lparr>statusCode = 400,
             json = JObj [(''success'', JBool False), (''error'', JStr ''Message is required'')]\<rparr>,
            [])"
  using assms by (simp add: handleChatMessage_def trim_blank messageRequired_def)

theorem blank_message_rejected_witness:
  "[CHR '' '', CHR 0x09, CHR 0x0A] \<noteq> []
   \<and> isWhiteSpace (CHR '' '') \<and> isWhiteSpace (CHR 0x09) \<and> isWhiteSpace (CHR 0x0A)
   \<and> handleChatMessage utcRuntime (findMany wednesdayBookings) notJsonModel
         \<lparr>body_message = JStr [CHR '' '', CHR 0x09, CHR 0x0A]\<rparr>
       = (\<lparr>statusCode = 400,
           json = JObj [(''success'', JBool False), (''error'', JStr ''Message is required'')]\<rparr>,
          [])"
proof -
  have ws: "\<forall>c\<in>set [CHR '' '', CHR 0x09, CHR 0x0A]. isWhiteSpace c"
    by (simp add: isWhiteSpace_def)
  have ne: "[CHR '' '', CHR 0x09, CHR 0x0A] \<noteq> []"
    by simp
  from blank_message_rejected [OF ne ws] ws ne show ?thesis
    by simp
qed

end
